theory Spec2Isabelle
  imports Main
begin

section \<open>Ren'Py command-line front end (renpy/arguments.py)\<close>

text \<open>
  The module parses the command line in two phases and dispatches to a registered
  command. Its module-level globals (\<^verbatim>\<open>commands\<close>, \<^verbatim>\<open>display\<close>, \<^verbatim>\<open>epic_arguments\<close>)
  and the process-wide objects it touches (\<^verbatim>\<open>sys.argv\<close>, \<^verbatim>\<open>os.environ\<close>,
  \<^verbatim>\<open>renpy.session\<close>, \<^verbatim>\<open>renpy.game.args\<close>, ...) are the fields of one state
  record that every function takes and returns. Exceptions and \<^verbatim>\<open>sys.exit\<close> are
  values of type \<open>error\<close>; a function returns \<open>(error + 'a) \<times> state\<close>, so the state
  reached when the process stops is still visible.

  Strings are byte lists: \<^verbatim>\<open>str.lower\<close> is modelled on ASCII letters.
\<close>

subsection \<open>Values, namespaces, errors\<close>

text \<open>The Python values an argparse namespace of this program holds.\<close>

datatype val = VNone | VBool bool | VInt int | VStr string

text \<open>Python truthiness of such a value (\<^verbatim>\<open>if x:\<close>).\<close>

fun truthy :: "val \<Rightarrow> bool" where
  "truthy VNone = False"
| "truthy (VBool b) = b"
| "truthy (VInt i) = (i \<noteq> 0)"
| "truthy (VStr s) = (s \<noteq> [])"

text \<open>An \<^verbatim>\<open>argparse.Namespace\<close>: attribute name to value.\<close>

type_synonym namespace = "string \<rightharpoonup> val"

text \<open>
  \<open>SystemExit status message\<close> is \<^verbatim>\<open>sys.exit(status)\<close> after \<open>message\<close> was written
  to the standard error (or output) stream; the others are the Python exceptions of a
  failed dictionary lookup, attribute lookup and list index.
\<close>

datatype error =
  SystemExit int string | KeyError string | AttributeError string | IndexError string

definition getattr :: "namespace \<Rightarrow> string \<Rightarrow> error + val" where
  "getattr ns name = (case ns name of None \<Rightarrow> Inl (AttributeError name) | Some v \<Rightarrow> Inr v)"

text \<open>\<^verbatim>\<open>d.get(key, False)\<close> followed by a truth test, as used on \<^verbatim>\<open>renpy.session\<close>.\<close>

definition get_flag :: "(string \<rightharpoonup> val) \<Rightarrow> string \<Rightarrow> bool" where
  "get_flag d key = (case d key of None \<Rightarrow> False | Some v \<Rightarrow> truthy v)"

subsection \<open>Process state\<close>

text \<open>
  A command handler is a Python function of no arguments. The four handlers defined
  in this module are named; \<^verbatim>\<open>renpy.lint.lint\<close> and every function registered by
  other code are \<open>External\<close>, identified by a name.
\<close>

datatype handler = Run | Compile | Quit | Rmpersistent | External string

record state =
  argv :: "string list"                    \<comment> \<open>\<^verbatim>\<open>sys.argv\<close>\<close>
  environ :: "string \<rightharpoonup> string"            \<comment> \<open>\<^verbatim>\<open>os.environ\<close>\<close>
  commands :: "string \<rightharpoonup> handler"           \<comment> \<open>\<^verbatim>\<open>commands\<close>\<close>
  display :: "string \<rightharpoonup> bool"               \<comment> \<open>\<^verbatim>\<open>display\<close>\<close>
  epic_arguments :: "string list option"   \<comment> \<open>\<^verbatim>\<open>epic_arguments\<close>, initially \<^verbatim>\<open>None\<close>\<close>
  session :: "string \<rightharpoonup> val"                \<comment> \<open>\<^verbatim>\<open>renpy.session\<close>\<close>
  game_args :: namespace                   \<comment> \<open>\<^verbatim>\<open>renpy.game.args\<close>\<close>
  renpy_version :: string                  \<comment> \<open>\<^verbatim>\<open>renpy.version\<close>\<close>
  warp_spec :: val                         \<comment> \<open>\<^verbatim>\<open>renpy.warp.warp_spec\<close>\<close>
  config_profile :: bool                   \<comment> \<open>\<^verbatim>\<open>renpy.config.profile\<close>\<close>
  config_debug_image_cache :: bool         \<comment> \<open>\<^verbatim>\<open>renpy.config.debug_image_cache\<close>\<close>
  should_save_persistent :: bool           \<comment> \<open>\<^verbatim>\<open>renpy.persistent.should_save_persistent\<close>\<close>
  persistent_unlinked :: bool              \<comment> \<open>set by \<^verbatim>\<open>unlink_persistent()\<close>\<close>
  calls :: "handler list"                  \<comment> \<open>history: handlers invoked by the dispatcher\<close>
  warp_assignments :: nat                  \<comment> \<open>history: assignments to \<^verbatim>\<open>warp_spec\<close>\<close>

subsection \<open>Platform argument sanitizer\<close>

definition lower_char :: "char \<Rightarrow> char" where
  "lower_char c =
     (let n = (of_char c :: nat) in if 65 \<le> n \<and> n \<le> 90 then char_of (n + 32) else c)"

definition lower :: "string \<Rightarrow> string" where
  "lower s = map lower_char s"

definition startswith :: "string \<Rightarrow> string \<Rightarrow> bool" where
  "startswith s p = (take (length p) s = p)"

text \<open>
  The \<^verbatim>\<open>for ... break ... else: return\<close> loop of both cleaners: true when the loop
  leaves through \<^verbatim>\<open>break\<close>.
\<close>

fun marker_found :: "string \<Rightarrow> string list \<Rightarrow> bool" where
  "marker_found m [] = False"
| "marker_found m (i # rest) = (if startswith (lower i) m then True else marker_found m rest)"

text \<open>
  \<^verbatim>\<open>sys.argv[1:]\<close> of an empty list is empty, so the loop body never runs and
  \<^verbatim>\<open>sys.argv[0]\<close> is only read when there is a second element.
\<close>

definition clean_epic_arguments :: "state \<Rightarrow> state" where
  "clean_epic_arguments st =
     (case argv st of
        [] \<Rightarrow> st
      | prog # tail \<Rightarrow>
          if marker_found ''-epicapp='' tail
          then st\<lparr>epic_arguments := Some tail, argv := [prog]\<rparr>
          else st)"

definition clean_macos_arguments :: "state \<Rightarrow> state" where
  "clean_macos_arguments st =
     (case argv st of
        [] \<Rightarrow> st
      | prog # tail \<Rightarrow>
          if marker_found ''-psn'' tail
          then st\<lparr>argv := [prog]\<rparr>
          else st)"

subsection \<open>Command registry\<close>

definition register_command :: "string \<Rightarrow> handler \<Rightarrow> bool \<Rightarrow> state \<Rightarrow> state" where
  "register_command name function uses_display st =
     st\<lparr>commands := (commands st)(name \<mapsto> function),
        display := (display st)(name \<mapsto> uses_display)\<rparr>"

definition pre_init :: "state \<Rightarrow> state" where
  "pre_init st =
     register_command ''quit'' Quit False
       (register_command ''rmpersistent'' Rmpersistent False
         (register_command ''compile'' Compile False
           (register_command ''lint'' (External ''renpy.lint.lint'') False
             (register_command ''run'' Run True st))))"

subsection \<open>The argparse library, as far as this grammar uses it\<close>

text \<open>
  \<^verbatim>\<open>argparse\<close> is Python's standard library, not code of this repository. The model
  below follows its documented behaviour for the features the grammar uses: optional
  and required positionals, \<^verbatim>\<open>store\<close>, \<^verbatim>\<open>store_true\<close>, \<^verbatim>\<open>version\<close> and \<^verbatim>\<open>help\<close>
  actions, \<^verbatim>\<open>type=int\<close>, \<^verbatim>\<open>--opt=value\<close>, unique-prefix abbreviations of long
  options, clusters of short flags, negative numbers as positionals and the \<^verbatim>\<open>--\<close>
  separator. Positional tokens are bound to the positionals in order of appearance,
  as the documentation describes and current interpreters do; older interpreters give
  an optional positional its default as soon as an option follows the positionals read
  so far. Usage and help texts are not modelled, and \<^verbatim>\<open>int()\<close> accepts an optional
  sign followed by decimal digits only.
\<close>

datatype arg_type = TypeStr | TypeInt

datatype action_kind = Store arg_type | StoreTrue | Version string | Help

datatype nargs = NargsNone | NargsOptional    \<comment> \<open>\<^verbatim>\<open>nargs=None\<close>, \<^verbatim>\<open>nargs="?"\<close>\<close>

text \<open>
  One \<^verbatim>\<open>add_argument\<close> call. A positional has no option strings. \<open>default_val\<close> is
  \<open>None\<close> for \<^verbatim>\<open>argparse.SUPPRESS\<close> (the help and version actions).
\<close>

record argument =
  option_strings :: "string list"
  dest :: string
  action :: action_kind
  nargs :: nargs
  default_val :: "val option"

definition is_digit :: "char \<Rightarrow> bool" where
  "is_digit c = (let n = (of_char c :: nat) in 48 \<le> n \<and> n \<le> 57)"

definition nat_of_digits :: "string \<Rightarrow> nat" where
  "nat_of_digits s = foldl (\<lambda>acc c. 10 * acc + (of_char c - 48)) 0 s"

definition int_of_string :: "string \<Rightarrow> int option" where
  "int_of_string s =
     (case s of
        [] \<Rightarrow> None
      | c # r \<Rightarrow>
          if c = CHR ''-'' then
            (if r \<noteq> [] \<and> list_all is_digit r then Some (- int (nat_of_digits r)) else None)
          else if c = CHR ''+'' then
            (if r \<noteq> [] \<and> list_all is_digit r then Some (int (nat_of_digits r)) else None)
          else if list_all is_digit s then Some (int (nat_of_digits s))
          else None)"

fun join :: "string \<Rightarrow> string list \<Rightarrow> string" where
  "join sep [] = []"
| "join sep [x] = x"
| "join sep (x # y # ys) = x @ sep @ join sep (y # ys)"

text \<open>\<^verbatim>\<open>_get_value\<close>: the \<^verbatim>\<open>type\<close> conversion; a failed conversion is a usage error.\<close>

definition get_value :: "arg_type \<Rightarrow> string \<Rightarrow> error + val" where
  "get_value ty s =
     (case ty of
        TypeStr \<Rightarrow> Inr (VStr s)
      | TypeInt \<Rightarrow>
          (case int_of_string s of
             None \<Rightarrow> Inl (SystemExit 2 (''invalid int value: '' @ s))
           | Some i \<Rightarrow> Inr (VInt i)))"

text \<open>
  Running one action on the strings matched for it. A \<^verbatim>\<open>store\<close> with no string is
  an optional positional that matched nothing: it stores its default.
\<close>

definition take_action :: "argument \<Rightarrow> string list \<Rightarrow> namespace \<Rightarrow> error + namespace" where
  "take_action a args ns =
     (case action a of
        Store ty \<Rightarrow>
          (case args of
             [] \<Rightarrow> Inr (ns(dest a := default_val a))
           | x # _ \<Rightarrow>
               (case get_value ty x of
                  Inl e \<Rightarrow> Inl e
                | Inr v \<Rightarrow> Inr (ns(dest a \<mapsto> v))))
      | StoreTrue \<Rightarrow> Inr (ns(dest a \<mapsto> VBool True))
      | Version v \<Rightarrow> Inl (SystemExit 0 v)
      | Help \<Rightarrow> Inl (SystemExit 0 []))"

fun take_actions :: "(argument \<times> string list) list \<Rightarrow> namespace \<Rightarrow> error + namespace" where
  "take_actions [] ns = Inr ns"
| "take_actions ((a, args) # rest) ns =
     (case take_action a args ns of
        Inl e \<Rightarrow> Inl e
      | Inr ns' \<Rightarrow> take_actions rest ns')"

text \<open>The namespace before any token is read: every default that is not suppressed.\<close>

fun initial_namespace :: "argument list \<Rightarrow> namespace \<Rightarrow> namespace" where
  "initial_namespace [] ns = ns"
| "initial_namespace (a # rest) ns =
     initial_namespace rest
       (case default_val a of
          None \<Rightarrow> ns
        | Some d \<Rightarrow> if ns (dest a) \<noteq> None then ns else ns(dest a \<mapsto> d))"

subsubsection \<open>Classifying a token (\<^verbatim>\<open>_parse_optional\<close>)\<close>

datatype token_class =
    Positional
  | Unknown
  | Ambiguous
  | Known argument string "string option"   \<comment> \<open>action, option string, explicit argument\<close>

definition find_option :: "argument list \<Rightarrow> string \<Rightarrow> argument option" where
  "find_option ap s = find (\<lambda>a. s \<in> set (option_strings a)) ap"

text \<open>\<^verbatim>\<open>s.split('=', 1)\<close> when \<^verbatim>\<open>'=' in s\<close>.\<close>

definition split_eq :: "string \<Rightarrow> (string \<times> string) option" where
  "split_eq s =
     (if CHR ''='' \<in> set s
      then Some (takeWhile (\<lambda>c. c \<noteq> CHR ''='') s, tl (dropWhile (\<lambda>c. c \<noteq> CHR ''='') s))
      else None)"

text \<open>
  \<^verbatim>\<open>_get_option_tuples\<close>, for a token of at least two characters that starts with
  \<^verbatim>\<open>-\<close>: the long options the token abbreviates, or the short option it starts with.
\<close>

definition get_option_tuples :: "argument list \<Rightarrow> string \<Rightarrow> (argument \<times> string \<times> string option) list" where
  "get_option_tuples ap s =
     (if startswith s ''--'' then
        (let (option_prefix, explicit_arg) =
               (case split_eq s of Some (p, e) \<Rightarrow> (p, Some e) | None \<Rightarrow> (s, None))
         in concat (map (\<lambda>a. map (\<lambda>opt. (a, opt, explicit_arg))
                                 (filter (\<lambda>opt. startswith opt option_prefix) (option_strings a))) ap))
      else
        concat (map (\<lambda>a. concat (map (\<lambda>opt.
                          if opt = take 2 s then [(a, opt, Some (drop 2 s))]
                          else if startswith opt s then [(a, opt, None)]
                          else []) (option_strings a))) ap))"

text \<open>The regular expression \<^verbatim>\<open>^-\d+$|^-\d*\.\d+$\<close>.\<close>

definition negative_number_like :: "string \<Rightarrow> bool" where
  "negative_number_like s =
     (case s of
        [] \<Rightarrow> False
      | c # r \<Rightarrow>
          c = CHR ''-'' \<and>
          ((r \<noteq> [] \<and> list_all is_digit r) \<or>
           (case dropWhile is_digit r of
              [] \<Rightarrow> False
            | d # f \<Rightarrow> d = CHR ''.'' \<and> f \<noteq> [] \<and> list_all is_digit f)))"

definition parse_optional :: "argument list \<Rightarrow> string \<Rightarrow> token_class" where
  "parse_optional ap s =
     (if s = [] then Positional
      else if hd s \<noteq> CHR ''-'' then Positional
      else
        (case find_option ap s of
           Some a \<Rightarrow> Known a s None
         | None \<Rightarrow>
             if length s = 1 then Positional
             else
               (case (case split_eq s of
                        None \<Rightarrow> None
                      | Some (p, e) \<Rightarrow> map_option (\<lambda>a. (a, p, e)) (find_option ap p)) of
                  Some (a, p, e) \<Rightarrow> Known a p (Some e)
                | None \<Rightarrow>
                    (case get_option_tuples ap s of
                       [] \<Rightarrow>
                         if negative_number_like s then Positional
                         else if CHR '' '' \<in> set s then Positional
                         else Unknown
                     | [(a, opt, e)] \<Rightarrow> Known a opt e
                     | _ \<Rightarrow> Ambiguous))))"

subsubsection \<open>Consuming the tokens\<close>

definition takes_argument :: "argument \<Rightarrow> bool" where
  "takes_argument a = (case action a of Store ty \<Rightarrow> True | _ \<Rightarrow> False)"

text \<open>A token that can be the argument of an option: pattern letter \<^verbatim>\<open>A\<close>.\<close>

definition is_argument_token :: "argument list \<Rightarrow> string \<Rightarrow> bool" where
  "is_argument_token ap t = (t \<noteq> ''--'' \<and> parse_optional ap t = Positional)"

definition ignored_explicit :: "string \<Rightarrow> error" where
  "ignored_explicit e = SystemExit 2 (''ignored explicit argument '' @ e)"

text \<open>
  \<^verbatim>\<open>consume_optional\<close>: the actions one option token stands for, each with its
  strings, and how many of the following tokens (0 or 1) it uses. An explicit
  argument after a short flag that takes none is read as further short flags.
\<close>

fun optional_tuples ::
  "argument list \<Rightarrow> argument \<Rightarrow> string \<Rightarrow> string option \<Rightarrow> string list
     \<Rightarrow> error + ((argument \<times> string list) list \<times> nat)" where
  "optional_tuples ap a opt None ts =
     (if takes_argument a then
        (case ts of
           [] \<Rightarrow> Inl (SystemExit 2 (''argument '' @ opt @ '': expected one argument''))
         | u # us \<Rightarrow>
             if is_argument_token ap u then Inr ([(a, [u])], 1)
             else Inl (SystemExit 2 (''argument '' @ opt @ '': expected one argument'')))
      else Inr ([(a, [])], 0))"
| "optional_tuples ap a opt (Some []) ts =
     (if takes_argument a then Inr ([(a, [[]])], 0) else Inl (ignored_explicit []))"
| "optional_tuples ap a opt (Some (c # cs)) ts =
     (if takes_argument a then Inr ([(a, [c # cs])], 0)
      else if length opt = 2 \<and> opt ! 1 \<noteq> CHR ''-'' then
        (case find_option ap [CHR ''-'', c] of
           None \<Rightarrow> Inl (ignored_explicit (c # cs))
         | Some a' \<Rightarrow>
             (case optional_tuples ap a' [CHR ''-'', c] (if cs = [] then None else Some cs) ts of
                Inl e \<Rightarrow> Inl e
              | Inr (tuples, n) \<Rightarrow> Inr ((a, []) # tuples, n)))
      else Inl (ignored_explicit (c # cs)))"

definition is_required :: "argument \<Rightarrow> bool" where
  "is_required p = (nargs p = NargsNone)"

text \<open>
  End of input: an optional positional not yet bound takes its default, a required
  one is a usage error.
\<close>

fun finish :: "argument list \<Rightarrow> namespace \<Rightarrow> string list \<Rightarrow> error + (namespace \<times> string list)" where
  "finish [] ns extras = Inr (ns, extras)"
| "finish (p # ps) ns extras =
     (if is_required p then
        Inl (SystemExit 2 (''the following arguments are required: '' @
                           join '', '' (map dest (filter is_required (p # ps)))))
      else
        (case take_action p [] ns of
           Inl e \<Rightarrow> Inl e
         | Inr ns' \<Rightarrow> finish ps ns' extras))"

text \<open>After \<^verbatim>\<open>--\<close> every token is positional.\<close>

fun positionals_only ::
  "argument list \<Rightarrow> string list \<Rightarrow> namespace \<Rightarrow> string list \<Rightarrow> error + (namespace \<times> string list)" where
  "positionals_only ps [] ns extras = finish ps ns extras"
| "positionals_only [] (t # ts) ns extras = Inr (ns, extras @ t # ts)"
| "positionals_only (p # ps) (t # ts) ns extras =
     (case take_action p [t] ns of
        Inl e \<Rightarrow> Inl e
      | Inr ns' \<Rightarrow> positionals_only ps ts ns' extras)"

text \<open>
  The main loop: \<open>ap\<close> is the whole grammar, \<open>ps\<close> the positionals still unbound,
  \<open>extras\<close> the unrecognized tokens so far.
\<close>

fun consume ::
  "argument list \<Rightarrow> argument list \<Rightarrow> string list \<Rightarrow> namespace \<Rightarrow> string list
     \<Rightarrow> error + (namespace \<times> string list)" where
  "consume ap ps [] ns extras = finish ps ns extras"
| "consume ap ps (t # ts) ns extras =
     (if t = ''--'' then positionals_only ps ts ns extras
      else
        (case parse_optional ap t of
           Positional \<Rightarrow>
             (case ps of
                [] \<Rightarrow> consume ap [] ts ns (extras @ [t])
              | p # ps' \<Rightarrow>
                  (case take_action p [t] ns of
                     Inl e \<Rightarrow> Inl e
                   | Inr ns' \<Rightarrow> consume ap ps' ts ns' extras))
         | Unknown \<Rightarrow> consume ap ps ts ns (extras @ [t])
         | Ambiguous \<Rightarrow> Inl (SystemExit 2 (''ambiguous option: '' @ t))
         | Known a opt e \<Rightarrow>
             (case optional_tuples ap a opt e ts of
                Inl err \<Rightarrow> Inl err
              | Inr (tuples, n) \<Rightarrow>
                  (case take_actions tuples ns of
                     Inl err \<Rightarrow> Inl err
                   | Inr ns' \<Rightarrow> consume ap ps (drop n ts) ns' extras))))"

text \<open>\<^verbatim>\<open>argparse.ArgumentParser.parse_known_args\<close>, the method of the base class.\<close>

definition argparse_parse_known_args ::
  "argument list \<Rightarrow> string list \<Rightarrow> error + (namespace \<times> string list)" where
  "argparse_parse_known_args ap tokens =
     consume ap (filter (\<lambda>a. option_strings a = []) ap) tokens
       (initial_namespace ap Map.empty) []"

subsection \<open>The module's \<^verbatim>\<open>ArgumentParser\<close> class\<close>

text \<open>Commands that force compile to be set.\<close>

definition compile_commands :: "string list" where
  "compile_commands = [''compile'', ''add_from'', ''merge_strings'']"

text \<open>The three shapes of \<^verbatim>\<open>add_argument\<close> call the module makes.\<close>

definition positional :: "string \<Rightarrow> nargs \<Rightarrow> val \<Rightarrow> argument" where
  "positional name n d =
     \<lparr>option_strings = [], dest = name, action = Store TypeStr, nargs = n, default_val = Some d\<rparr>"

definition store_option :: "string \<Rightarrow> string \<Rightarrow> arg_type \<Rightarrow> val \<Rightarrow> argument" where
  "store_option opt name ty d =
     \<lparr>option_strings = [opt], dest = name, action = Store ty, nargs = NargsNone,
      default_val = Some d\<rparr>"

definition store_true :: "string \<Rightarrow> string \<Rightarrow> argument" where
  "store_true opt name =
     \<lparr>option_strings = [opt], dest = name, action = StoreTrue, nargs = NargsNone,
      default_val = Some (VBool False)\<rparr>"

text \<open>
  \<^verbatim>\<open>ArgumentParser.add_argument\<close>: the argument goes to the parser itself or to its
  current argument group; a group only changes the help text, so both append to the
  one list of arguments.
\<close>

definition add_argument :: "argument list \<Rightarrow> argument \<Rightarrow> argument list" where
  "add_argument ap a = ap @ [a]"

text \<open>
  \<^verbatim>\<open>ArgumentParser.__init__(second_pass, description, require_command)\<close>. Where the
  source gives no \<^verbatim>\<open>dest\<close>, argparse derives it from the option string. The
  constructor of the base class is called first, without \<^verbatim>\<open>prog\<close>, so argparse reads
  \<^verbatim>\<open>sys.argv[0]\<close> for the program name: on an empty \<^verbatim>\<open>sys.argv\<close> that is an
  \<^verbatim>\<open>IndexError\<close>. The second pass reads \<^verbatim>\<open>renpy.game.args.command\<close> for the title of
  its argument group.
\<close>

definition ArgumentParser ::
  "state \<Rightarrow> bool \<Rightarrow> string option \<Rightarrow> bool \<Rightarrow> error + argument list" where
  "ArgumentParser st second_pass description require_command =
     (if argv st = [] then Inl (IndexError ''list index out of range'')
      else
      let ap =
        (if require_command then
           [positional ''basedir'' NargsNone VNone,
            positional ''command'' NargsNone VNone]
         else
           [positional ''basedir'' NargsOptional (VStr []),
            positional ''command'' NargsOptional (VStr ''run'')]) @
        [store_option ''--savedir'' ''savedir'' TypeStr VNone,
         store_option ''--trace'' ''trace'' TypeInt (VInt 0),
         \<lparr>option_strings = [''--version''], dest = ''version'',
          action = Version (renpy_version st), nargs = NargsNone, default_val = None\<rparr>,
         store_true ''--compile'' ''compile'',
         store_true ''--compile-python'' ''compile_python'',
         store_true ''--keep-orphan-rpyc'' ''keep_orphan_rpyc'',
         store_true ''--lint'' ''lint'',
         store_true ''--errors-in-editor'' ''errors_in_editor'',
         store_true ''--safe-mode'' ''safe_mode'',
         store_option ''--warp'' ''warp'' TypeStr VNone,
         store_option ''--json-dump'' ''json_dump'' TypeStr VNone,
         store_true ''--json-dump-private'' ''json_dump_private'',
         store_true ''--json-dump-common'' ''json_dump_common'']
      in
        if second_pass then
          (case getattr (game_args st) ''command'' of
             Inl e \<Rightarrow> Inl e
           | Inr command \<Rightarrow>
               Inr (add_argument ap
                     \<lparr>option_strings = [''-h'', ''--help''], dest = ''help'',
                      action = Help, nargs = NargsNone, default_val = None\<rparr>))
        else Inr ap)"

text \<open>
  \<^verbatim>\<open>ArgumentParser.parse_known_args\<close>: the base class parses \<^verbatim>\<open>sys.argv[1:]\<close>, then
  the three rules on the compile flag run in the order of the source.
\<close>

definition parse_known_args :: "state \<Rightarrow> argument list \<Rightarrow> error + (namespace \<times> string list)" where
  "parse_known_args st ap =
     (case argparse_parse_known_args ap (drop 1 (argv st)) of
        Inl e \<Rightarrow> Inl e
      | Inr (args0, rest) \<Rightarrow>
          (let args1 = (if get_flag (session st) ''_reload''
                        then args0(''compile'' \<mapsto> VBool False) else args0)
           in case getattr args1 ''command'' of
                Inl e \<Rightarrow> Inl e
              | Inr command \<Rightarrow>
                  (let args2 = (if command \<in> VStr ` set compile_commands
                                then args1(''compile'' \<mapsto> VBool True) else args1);
                       args3 = (if get_flag (session st) ''compile''
                                then args2(''compile'' \<mapsto> VBool True) else args2)
                   in Inr (args3, rest))))"

text \<open>
  \<^verbatim>\<open>parse_args\<close> is inherited: argparse calls \<^verbatim>\<open>self.parse_known_args\<close>, which is the
  method above, and reports leftover tokens as a usage error.
\<close>

definition parse_args :: "state \<Rightarrow> argument list \<Rightarrow> error + namespace" where
  "parse_args st ap =
     (case parse_known_args st ap of
        Inl e \<Rightarrow> Inl e
      | Inr (args, rest) \<Rightarrow>
          if rest \<noteq> [] then Inl (SystemExit 2 (''unrecognized arguments: '' @ join '' '' rest))
          else Inr args)"

subsection \<open>Command handlers\<close>

text \<open>\<^verbatim>\<open>takes_no_arguments\<close>: a strict second-pass parser with nothing added.\<close>

definition takes_no_arguments :: "state \<Rightarrow> string option \<Rightarrow> error + unit" where
  "takes_no_arguments st description =
     (case ArgumentParser st True description True of
        Inl e \<Rightarrow> Inl e
      | Inr ap \<Rightarrow>
          (case parse_args st ap of
             Inl e \<Rightarrow> Inl e
           | Inr args \<Rightarrow> Inr ()))"

text \<open>
  \<^verbatim>\<open>run\<close>, the default command. \<open>warp_assignments\<close> counts the executions of the
  assignment \<^verbatim>\<open>renpy.warp.warp_spec = args.warp\<close>.
\<close>

definition run :: "state \<Rightarrow> (error + bool) \<times> state" where
  "run st =
     (case ArgumentParser st True (Some ''Runs the current project normally.'') False of
        Inl e \<Rightarrow> (Inl e, st)
      | Inr ap0 \<Rightarrow>
          (let ap1 = add_argument ap0 (store_true ''--profile-display'' ''profile_display'');
               ap = add_argument ap1 (store_true ''--debug-image-cache'' ''debug_image_cache'')
           in case parse_args st ap of
                Inl e \<Rightarrow> (Inl e, st)
              | Inr args \<Rightarrow>
                  (let st1 = st\<lparr>game_args := args\<rparr>
                   in case getattr args ''warp'' of
                        Inl e \<Rightarrow> (Inl e, st1)
                      | Inr warp \<Rightarrow>
                          (let st2 =
                                 (if truthy warp \<and> \<not> get_flag (session st1) ''_warped''
                                  then st1\<lparr>session := (session st1)(''_warped'' \<mapsto> VBool True),
                                           warp_spec := warp,
                                           warp_assignments := Suc (warp_assignments st1)\<rparr>
                                  else st1)
                           in case getattr args ''profile_display'' of
                                Inl e \<Rightarrow> (Inl e, st2)
                              | Inr profile_display \<Rightarrow>
                                  (let st3 = (if truthy profile_display
                                              then st2\<lparr>config_profile := True\<rparr> else st2)
                                   in case getattr args ''debug_image_cache'' of
                                        Inl e \<Rightarrow> (Inl e, st3)
                                      | Inr debug_image_cache \<Rightarrow>
                                          (Inr True,
                                           if truthy debug_image_cache
                                           then st3\<lparr>config_debug_image_cache := True\<rparr>
                                           else st3))))))"

definition compile :: "state \<Rightarrow> (error + bool) \<times> state" where
  "compile st =
     (case takes_no_arguments st (Some ''Recompiles the game script.'') of
        Inl e \<Rightarrow> (Inl e, st)
      | Inr u \<Rightarrow> (Inr False, st))"

definition quit :: "state \<Rightarrow> (error + bool) \<times> state" where
  "quit st =
     (case takes_no_arguments st (Some ''Recompiles the game script.'') of
        Inl e \<Rightarrow> (Inl e, st)
      | Inr u \<Rightarrow> (Inr False, st))"

definition rmpersistent :: "state \<Rightarrow> (error + bool) \<times> state" where
  "rmpersistent st =
     (case takes_no_arguments st (Some ''Deletes the persistent data.'') of
        Inl e \<Rightarrow> (Inl e, st)
      | Inr u \<Rightarrow> (Inr False, st\<lparr>persistent_unlinked := True, should_save_persistent := False\<rparr>))"

text \<open>
  Calling a registered function. \<open>ext\<close> gives the behaviour of the functions this
  module does not define; \<open>calls\<close> records the call.
\<close>

definition invoke ::
  "(string \<Rightarrow> state \<Rightarrow> (error + bool) \<times> state) \<Rightarrow> handler \<Rightarrow> state \<Rightarrow> (error + bool) \<times> state" where
  "invoke ext function st =
     (let st' = st\<lparr>calls := calls st @ [function]\<rparr>
      in case function of
           Run \<Rightarrow> run st'
         | Compile \<Rightarrow> compile st'
         | Quit \<Rightarrow> quit st'
         | Rmpersistent \<Rightarrow> rmpersistent st'
         | External name \<Rightarrow> ext name st')"

subsection \<open>Bootstrap and dispatch\<close>

text \<open>
  \<^verbatim>\<open>bootstrap\<close>: the value returned is \<^verbatim>\<open>args\<close> alone; the second component of the
  lenient parse is bound to \<^verbatim>\<open>_rest\<close> and dropped.
\<close>

definition bootstrap :: "state \<Rightarrow> (error + namespace) \<times> state" where
  "bootstrap st0 =
     (let st = clean_macos_arguments (clean_epic_arguments st0)
      in case ArgumentParser st False None False of
           Inl e \<Rightarrow> (Inl e, st)
         | Inr ap \<Rightarrow>
             (case parse_known_args st ap of
                Inl e \<Rightarrow> (Inl e, st)
              | Inr (args, rest) \<Rightarrow>
                  (case getattr args ''command'' of
                     Inl e \<Rightarrow> (Inl e, st)
                   | Inr command \<Rightarrow>
                       (Inr (if command = VStr ''lint'' then args(''lint'' \<mapsto> VBool True) else args),
                        st))))"

text \<open>\<^verbatim>\<open>str(x)\<close> for the message of the unknown-command error.\<close>

fun str_nat :: "nat \<Rightarrow> string" where
  "str_nat n =
     (if n < 10 then [char_of (48 + n)] else str_nat (n div 10) @ [char_of (48 + n mod 10)])"

declare str_nat.simps [simp del]

fun str_val :: "val \<Rightarrow> string" where
  "str_val VNone = ''None''"
| "str_val (VBool b) = (if b then ''True'' else ''False'')"
| "str_val (VInt i) = (if i < 0 then CHR ''-'' # str_nat (nat (- i)) else str_nat (nat i))"
| "str_val (VStr s) = s"

text \<open>A dictionary with string keys, looked up with any value.\<close>

fun lookup :: "(string \<rightharpoonup> 'a) \<Rightarrow> val \<Rightarrow> 'a option" where
  "lookup d (VStr s) = d s"
| "lookup d v = None"

text \<open>\<^verbatim>\<open>dict.setdefault(key, value)\<close>, as called on \<^verbatim>\<open>os.environ\<close>.\<close>

definition setdefault :: "(string \<rightharpoonup> string) \<Rightarrow> string \<Rightarrow> string \<Rightarrow> (string \<rightharpoonup> string)" where
  "setdefault d key v = (case d key of None \<Rightarrow> d(key \<mapsto> v) | Some old \<Rightarrow> d)"

text \<open>
  The command name the dispatcher looks up: \<^verbatim>\<open>renpy.game.args.command\<close>, replaced
  by \<^verbatim>\<open>"lint"\<close> when it is \<^verbatim>\<open>"run"\<close> and \<^verbatim>\<open>renpy.game.args.lint\<close> is true.
\<close>

definition effective_command :: "state \<Rightarrow> error + val" where
  "effective_command st =
     (case getattr (game_args st) ''command'' of
        Inl e \<Rightarrow> Inl e
      | Inr command \<Rightarrow>
          if command = VStr ''run'' then
            (case getattr (game_args st) ''lint'' of
               Inl e \<Rightarrow> Inl e
             | Inr lint \<Rightarrow> Inr (if truthy lint then VStr ''lint'' else command))
          else Inr command)"

text \<open>
  \<^verbatim>\<open>post_init\<close>. \<^verbatim>\<open>ArgumentParser().error(...)\<close> builds a second-pass parser and
  leaves through argparse's \<^verbatim>\<open>error\<close>, which exits with status 2.
\<close>

definition post_init ::
  "(string \<Rightarrow> state \<Rightarrow> (error + bool) \<times> state) \<Rightarrow> state \<Rightarrow> (error + bool) \<times> state" where
  "post_init ext st =
     (case effective_command st of
        Inl e \<Rightarrow> (Inl e, st)
      | Inr command \<Rightarrow>
          (case lookup (commands st) command of
             None \<Rightarrow>
               (case ArgumentParser st True None True of
                  Inl e \<Rightarrow> (Inl e, st)
                | Inr ap \<Rightarrow>
                    (Inl (SystemExit 2 (''Command '' @ str_val command @ '' is unknown.'')), st))
           | Some function \<Rightarrow>
               (case lookup (display st) command of
                  None \<Rightarrow> (Inl (KeyError (str_val command)), st)
                | Some uses_display \<Rightarrow>
                    invoke ext function
                      (if \<not> uses_display
                       then st\<lparr>environ :=
                                 setdefault (setdefault (environ st) ''SDL_AUDIODRIVER'' ''dummy'')
                                   ''SDL_VIDEODRIVER'' ''dummy''\<rparr>
                       else st))))"

subsection \<open>Call sequences and concrete states\<close>

text \<open>A sequence of \<^verbatim>\<open>register_command\<close> calls, first call first.\<close>

fun registrations :: "(string \<times> handler \<times> bool) list \<Rightarrow> state \<Rightarrow> state" where
  "registrations [] st = st"
| "registrations ((name, function, uses_display) # rest) st =
     registrations rest (register_command name function uses_display st)"

text \<open>
  A sequence of calls of \<^verbatim>\<open>run\<close> in one process, each with the command line it
  finds in \<^verbatim>\<open>sys.argv\<close>; the session store is carried from call to call.
\<close>

fun run_sequence :: "string list list \<Rightarrow> state \<Rightarrow> state" where
  "run_sequence [] st = st"
| "run_sequence (av # avs) st = run_sequence avs (snd (run (st\<lparr>argv := av\<rparr>)))"

text \<open>
  The state of a fresh process with command line \<open>av\<close>: the registry maps and the
  session are empty and \<^verbatim>\<open>epic_arguments\<close> is \<^verbatim>\<open>None\<close>, as the module initialises
  them.
\<close>

definition initial_state :: "string list \<Rightarrow> state" where
  "initial_state av =
     \<lparr>argv = av, environ = Map.empty, commands = Map.empty, display = Map.empty,
      epic_arguments = None, session = Map.empty, game_args = Map.empty,
      renpy_version = ''8.4.0'', warp_spec = VNone, config_profile = False,
      config_debug_image_cache = False, should_save_persistent = True,
      persistent_unlinked = False, calls = [], warp_assignments = 0\<rparr>"

text \<open>
  The state at dispatch time: the built-in commands are registered and
  \<^verbatim>\<open>renpy.game.args\<close> holds the given command name and lint flag.
\<close>

definition dispatch_state :: "string list \<Rightarrow> string \<Rightarrow> bool \<Rightarrow> state" where
  "dispatch_state av command lint =
     pre_init ((initial_state av)\<lparr>game_args := [''command'' \<mapsto> VStr command,
                                               ''lint'' \<mapsto> VBool lint]\<rparr>)"

text \<open>An external handler that returns \<^verbatim>\<open>False\<close> and changes nothing.\<close>

definition stop_handler :: "string \<Rightarrow> state \<Rightarrow> (error + bool) \<times> state" where
  "stop_handler name st = (Inr False, st)"

text \<open>
  An external handler with a visible effect: it stores its own name in the session
  and returns \<^verbatim>\<open>False\<close>.
\<close>

definition marking_handler :: "string \<Rightarrow> state \<Rightarrow> (error + bool) \<times> state" where
  "marking_handler name st = (Inr False, st\<lparr>session := (session st)(name \<mapsto> VBool True)\<rparr>)"


section \<open>Properties\<close>

subsection \<open>Sanitizer\<close>

lemma marker_found_iff: "marker_found m ts = (\<exists>t\<in>set ts. startswith (lower t) m)"
  by (induction ts) auto

text \<open>
  Claim C4. Let the tokens after the program name be \<open>drop 1 (argv st)\<close> and the
  program name alone be \<open>take 1 (argv st)\<close>. If some token lowercase-starts with
  \<^verbatim>\<open>-epicapp=\<close>, the foreign-launcher cleaner reduces the vector to the program name
  and stores the removed tail in \<^verbatim>\<open>epic_arguments\<close>, and so does the pair of cleaners
  run in sequence. If some token lowercase-starts with \<^verbatim>\<open>-psn\<close>, the quarantine cleaner
  reduces the vector to the program name and changes nothing else in the state, so it
  keeps no copy of the tail; the pair of cleaners reduces the vector too, and stores
  nothing unless the launcher marker is present as well. If no token starts with either
  marker, neither cleaner changes anything.
\<close>

theorem sanitizer_effect:
  "((\<exists>t\<in>set (drop 1 (argv st)). startswith (lower t) ''-epicapp='') \<longrightarrow>
      clean_epic_arguments st =
        st\<lparr>epic_arguments := Some (drop 1 (argv st)), argv := take 1 (argv st)\<rparr> \<and>
      argv (clean_macos_arguments (clean_epic_arguments st)) = take 1 (argv st) \<and>
      epic_arguments (clean_macos_arguments (clean_epic_arguments st)) = Some (drop 1 (argv st))) \<and>
   ((\<exists>t\<in>set (drop 1 (argv st)). startswith (lower t) ''-psn'') \<longrightarrow>
      clean_macos_arguments st = st\<lparr>argv := take 1 (argv st)\<rparr> \<and>
      argv (clean_macos_arguments (clean_epic_arguments st)) = take 1 (argv st) \<and>
      ((\<forall>t\<in>set (drop 1 (argv st)). \<not> startswith (lower t) ''-epicapp='') \<longrightarrow>
         clean_macos_arguments (clean_epic_arguments st) = st\<lparr>argv := take 1 (argv st)\<rparr>)) \<and>
   ((\<forall>t\<in>set (drop 1 (argv st)).
        \<not> startswith (lower t) ''-epicapp='' \<and> \<not> startswith (lower t) ''-psn'') \<longrightarrow>
      clean_epic_arguments st = st \<and> clean_macos_arguments st = st \<and>
      clean_macos_arguments (clean_epic_arguments st) = st)"
proof (cases "argv st")
  case Nil
  then show ?thesis
    by (simp add: clean_epic_arguments_def clean_macos_arguments_def)
next
  case (Cons prog tail)
  then show ?thesis
    by (auto simp add: clean_epic_arguments_def clean_macos_arguments_def marker_found_iff)
qed

theorem sanitizer_effect_witness:
  "argv (clean_epic_arguments (initial_state [''renpy'', ''game'', ''-EpicApp=x''])) = [''renpy''] \<and>
   epic_arguments (clean_epic_arguments (initial_state [''renpy'', ''game'', ''-EpicApp=x''])) =
     Some [''game'', ''-EpicApp=x''] \<and>
   argv (clean_macos_arguments (initial_state [''renpy'', ''-PSN_0_1''])) = [''renpy''] \<and>
   epic_arguments (clean_macos_arguments (initial_state [''renpy'', ''-PSN_0_1''])) = None \<and>
   argv (clean_macos_arguments (clean_epic_arguments (initial_state [''renpy'', ''game'', ''lint'']))) =
     [''renpy'', ''game'', ''lint'']"
proof -
  have h1: "\<exists>t\<in>set (drop 1 (argv (initial_state [''renpy'', ''game'', ''-EpicApp=x'']))).
              startswith (lower t) ''-epicapp=''"
    by code_simp
  have h2: "\<exists>t\<in>set (drop 1 (argv (initial_state [''renpy'', ''-PSN_0_1'']))).
              startswith (lower t) ''-psn''"
    by code_simp
  have h3: "\<forall>t\<in>set (drop 1 (argv (initial_state [''renpy'', ''game'', ''lint'']))).
              \<not> startswith (lower t) ''-epicapp='' \<and> \<not> startswith (lower t) ''-psn''"
    by code_simp
  note a = sanitizer_effect [of "initial_state [''renpy'', ''game'', ''-EpicApp=x'']",
             THEN conjunct1, THEN mp, OF h1]
  note b = sanitizer_effect [of "initial_state [''renpy'', ''-PSN_0_1'']",
             THEN conjunct2, THEN conjunct1, THEN mp, OF h2]
  note c = sanitizer_effect [of "initial_state [''renpy'', ''game'', ''lint'']",
             THEN conjunct2, THEN conjunct2, THEN mp, OF h3]
  show ?thesis
    using a b c by (simp add: initial_state_def)
qed

subsection \<open>Registry\<close>

lemma register_command_dom:
  "dom (commands st) = dom (display st) \<Longrightarrow>
   dom (commands (register_command name f d st)) = dom (display (register_command name f d st))"
  by (simp add: register_command_def)

lemma registrations_dom:
  "dom (commands st) = dom (display st) \<Longrightarrow>
   dom (commands (registrations regs st)) = dom (display (registrations regs st))"
proof (induction regs arbitrary: st)
  case Nil
  then show ?case by simp
next
  case (Cons r regs)
  obtain name f d where r: "r = (name, f, d)" by (cases r) auto
  show ?case
    unfolding r registrations.simps
    by (rule Cons.IH) (rule register_command_dom [OF Cons.prems])
qed

lemma lookup_dom: "dom m = dom m' \<Longrightarrow> lookup m c = Some x \<Longrightarrow> \<exists>y. lookup m' c = Some y"
  by (cases c) auto

lemma pre_init_registrations:
  "pre_init st =
     registrations [(''run'', Run, True), (''lint'', External ''renpy.lint.lint'', False),
                    (''compile'', Compile, False), (''rmpersistent'', Rmpersistent, False),
                    (''quit'', Quit, False)] st"
  by (simp add: pre_init_def)

text \<open>
  Claim C9. Starting from the empty maps of a freshly loaded module, after any
  sequence of \<^verbatim>\<open>register_command\<close> calls the command map and the display map have the
  same key set; so for every command found in the command map the lookup in the
  display map succeeds.
\<close>

theorem registry_maps_agree:
  assumes "commands st0 = Map.empty" and "display st0 = Map.empty"
  shows "dom (commands (registrations regs st0)) = dom (display (registrations regs st0)) \<and>
         (\<forall>c f. lookup (commands (registrations regs st0)) c = Some f \<longrightarrow>
            (\<exists>uses_display. lookup (display (registrations regs st0)) c = Some uses_display))"
proof -
  have d: "dom (commands (registrations regs st0)) = dom (display (registrations regs st0))"
    by (rule registrations_dom) (simp add: assms)
  show ?thesis
  proof (intro conjI allI impI)
    show "dom (commands (registrations regs st0)) = dom (display (registrations regs st0))"
      by (rule d)
  next
    fix c f
    assume "lookup (commands (registrations regs st0)) c = Some f"
    then show "\<exists>uses_display. lookup (display (registrations regs st0)) c = Some uses_display"
      by (rule lookup_dom [OF d])
  qed
qed

theorem registry_maps_agree_witness:
  "commands (initial_state []) = Map.empty \<and> display (initial_state []) = Map.empty \<and>
   lookup (commands (registrations [(''run'', Run, True), (''check'', External ''check'', False)]
                      (initial_state []))) (VStr ''check'') = Some (External ''check'') \<and>
   (\<exists>uses_display.
      lookup (display (registrations [(''run'', Run, True), (''check'', External ''check'', False)]
                        (initial_state []))) (VStr ''check'') = Some uses_display)"
proof -
  have e1: "commands (initial_state []) = Map.empty" and e2: "display (initial_state []) = Map.empty"
    by (simp_all add: initial_state_def)
  have l: "lookup (commands (registrations [(''run'', Run, True), (''check'', External ''check'', False)]
                      (initial_state []))) (VStr ''check'') = Some (External ''check'')"
    by (simp add: register_command_def)
  from registry_maps_agree [OF e1 e2,
         of "[(''run'', Run, True), (''check'', External ''check'', False)]"] l
  have "\<exists>uses_display.
      lookup (display (registrations [(''run'', Run, True), (''check'', External ''check'', False)]
                        (initial_state []))) (VStr ''check'') = Some uses_display"
    by blast
  with e1 e2 l show ?thesis by blast
qed

subsection \<open>Dispatch\<close>

lemma ArgumentParser_second_pass:
  "argv st \<noteq> [] \<Longrightarrow> getattr (game_args st) ''command'' = Inr v \<Longrightarrow>
   \<exists>ap. ArgumentParser st True description require_command = Inr ap"
  by (simp add: ArgumentParser_def Let_def)

lemma ArgumentParser_empty_argv:
  "argv st = [] \<Longrightarrow>
   ArgumentParser st second_pass description require_command =
     Inl (IndexError ''list index out of range'')"
  by (simp add: ArgumentParser_def)

lemma effective_command_getattr:
  "effective_command st = Inr c \<Longrightarrow> \<exists>v. getattr (game_args st) ''command'' = Inr v"
  by (auto simp add: effective_command_def split: sum.splits)

lemma effective_command_lint:
  assumes "game_args st ''command'' = Some (VStr ''run'')"
    and "game_args st ''lint'' = Some l" and "truthy l"
  shows "effective_command st = Inr (VStr ''lint'')"
  using assms by (simp add: effective_command_def getattr_def)

lemma post_init_registered:
  assumes "effective_command st = Inr c"
    and "lookup (commands st) c = Some f"
    and "lookup (display st) c = Some d"
  shows "post_init ext st =
           invoke ext f
             (if \<not> d
              then st\<lparr>environ := setdefault (setdefault (environ st) ''SDL_AUDIODRIVER'' ''dummy'')
                                    ''SDL_VIDEODRIVER'' ''dummy''\<rparr>
              else st)"
  using assms by (simp add: post_init_def)

lemma setdefault_twice:
  "setdefault (setdefault env ''SDL_AUDIODRIVER'' ''dummy'') ''SDL_VIDEODRIVER'' ''dummy'' =
   (\<lambda>k. if (k = ''SDL_AUDIODRIVER'' \<or> k = ''SDL_VIDEODRIVER'') \<and> env k = None
        then Some ''dummy'' else env k)"
  by (rule ext) (simp add: setdefault_def split: option.splits)

lemma post_init_unknown_empty_argv:
  assumes "effective_command st = Inr c" and "lookup (commands st) c = None"
    and "argv st = []"
  shows "post_init ext st = (Inl (IndexError ''list index out of range''), st)"
  by (simp add: post_init_def assms(1,2) ArgumentParser_empty_argv [OF assms(3)])

text \<open>
  Claim C1. In a process whose \<^verbatim>\<open>sys.argv\<close> holds a program name: when the
  effective command name (after the run-to-lint redirection) is not a key of
  \<^verbatim>\<open>commands\<close>, \<^verbatim>\<open>post_init\<close> leaves through argparse's \<^verbatim>\<open>error\<close>: the process exits
  with status 2 and the message that the command is unknown, whatever the external
  handlers would do, and the state, with its record of handler calls, is the one
  \<^verbatim>\<open>post_init\<close> started in: no handler was invoked. (On an empty \<^verbatim>\<open>sys.argv\<close> the
  constructor of the parser raises \<^verbatim>\<open>IndexError\<close> before \<^verbatim>\<open>error\<close> is reached; no
  handler is invoked then either, see \<open>post_init_unknown_empty_argv\<close>.)
\<close>

theorem post_init_unknown_command:
  assumes "effective_command st = Inr c" and "lookup (commands st) c = None"
    and "argv st \<noteq> []"
  shows "post_init ext st =
           (Inl (SystemExit 2 (''Command '' @ str_val c @ '' is unknown.'')), st) \<and>
         calls (snd (post_init ext st)) = calls st"
proof -
  from assms(1) obtain v where "getattr (game_args st) ''command'' = Inr v"
    using effective_command_getattr by blast
  then obtain ap where "ArgumentParser st True None True = Inr ap"
    using ArgumentParser_second_pass [OF assms(3)] by blast
  then show ?thesis
    by (simp add: post_init_def assms(1,2))
qed

theorem post_init_unknown_command_witness:
  "effective_command (dispatch_state [''renpy'', ''game'', ''frobnicate''] ''frobnicate'' False) =
     Inr (VStr ''frobnicate'') \<and>
   lookup (commands (dispatch_state [''renpy'', ''game'', ''frobnicate''] ''frobnicate'' False))
     (VStr ''frobnicate'') = None \<and>
   fst (post_init stop_handler (dispatch_state [''renpy'', ''game'', ''frobnicate''] ''frobnicate'' False)) =
     Inl (SystemExit 2 ''Command frobnicate is unknown.'') \<and>
   calls (snd (post_init stop_handler
                 (dispatch_state [''renpy'', ''game'', ''frobnicate''] ''frobnicate'' False))) = []"
proof -
  have h1: "effective_command (dispatch_state [''renpy'', ''game'', ''frobnicate''] ''frobnicate'' False) =
              Inr (VStr ''frobnicate'')"
    by code_simp
  have h2: "lookup (commands (dispatch_state [''renpy'', ''game'', ''frobnicate''] ''frobnicate'' False))
              (VStr ''frobnicate'') = None"
    by code_simp
  have h3: "calls (dispatch_state [''renpy'', ''game'', ''frobnicate''] ''frobnicate'' False) = []"
    by code_simp
  have h4: "argv (dispatch_state [''renpy'', ''game'', ''frobnicate''] ''frobnicate'' False) \<noteq> []"
    by code_simp
  show ?thesis
    using post_init_unknown_command [OF h1 h2 h4, of stop_handler] h1 h2 h3 by simp
qed

text \<open>
  Claim C5. When \<^verbatim>\<open>renpy.game.args.command\<close> is \<^verbatim>\<open>"run"\<close> and
  \<^verbatim>\<open>renpy.game.args.lint\<close> is true, the effective command is \<^verbatim>\<open>"lint"\<close> and
  \<^verbatim>\<open>post_init\<close> runs the body of the function \<open>f\<close> registered under \<^verbatim>\<open>"lint"\<close>: the
  result and final state of \<^verbatim>\<open>post_init\<close> are those of that body, started in the
  state after the driver defaults (if the command needs no display) with the call
  recorded. For an external function such as \<^verbatim>\<open>renpy.lint.lint\<close> the body is what
  \<open>ext\<close> gives for its name. The function registered under \<^verbatim>\<open>"run"\<close> plays no part.
\<close>

theorem run_with_lint_dispatches_lint:
  assumes "game_args st ''command'' = Some (VStr ''run'')"
    and "game_args st ''lint'' = Some l" and "truthy l"
    and "commands st ''lint'' = Some f"
    and "display st ''lint'' = Some d"
  shows "effective_command st = Inr (VStr ''lint'') \<and>
         post_init ext st =
           (let st0 = (if \<not> d
                       then st\<lparr>environ :=
                                 setdefault (setdefault (environ st) ''SDL_AUDIODRIVER'' ''dummy'')
                                   ''SDL_VIDEODRIVER'' ''dummy''\<rparr>
                       else st);
                st1 = st0\<lparr>calls := calls st0 @ [f]\<rparr>
            in case f of
                 Run \<Rightarrow> run st1
               | Compile \<Rightarrow> compile st1
               | Quit \<Rightarrow> quit st1
               | Rmpersistent \<Rightarrow> rmpersistent st1
               | External name \<Rightarrow> ext name st1)"
proof -
  have e: "effective_command st = Inr (VStr ''lint'')"
    by (rule effective_command_lint [OF assms(1-3)])
  have "lookup (commands st) (VStr ''lint'') = Some f"
    and "lookup (display st) (VStr ''lint'') = Some d"
    using assms(4,5) by simp_all
  from post_init_registered [OF e this, of ext] e show ?thesis
    by (simp add: invoke_def Let_def)
qed

theorem run_with_lint_dispatches_lint_witness:
  "game_args (dispatch_state [''renpy'', ''--lint''] ''run'' True) ''command'' = Some (VStr ''run'') \<and>
   commands (dispatch_state [''renpy'', ''--lint''] ''run'' True) ''run'' = Some Run \<and>
   fst (run (dispatch_state [''renpy'', ''--lint''] ''run'' True)) = Inr True \<and>
   fst (post_init marking_handler (dispatch_state [''renpy'', ''--lint''] ''run'' True)) = Inr False \<and>
   session (snd (post_init marking_handler (dispatch_state [''renpy'', ''--lint''] ''run'' True)))
     ''renpy.lint.lint'' = Some (VBool True) \<and>
   calls (snd (post_init marking_handler (dispatch_state [''renpy'', ''--lint''] ''run'' True))) =
     [External ''renpy.lint.lint'']"
proof -
  have h1: "game_args (dispatch_state [''renpy'', ''--lint''] ''run'' True) ''command'' =
              Some (VStr ''run'')"
    by code_simp
  have h2: "game_args (dispatch_state [''renpy'', ''--lint''] ''run'' True) ''lint'' =
              Some (VBool True)"
    by code_simp
  have h3: "truthy (VBool True)"
    by simp
  have h4: "commands (dispatch_state [''renpy'', ''--lint''] ''run'' True) ''lint'' =
              Some (External ''renpy.lint.lint'')"
    by code_simp
  have h5: "display (dispatch_state [''renpy'', ''--lint''] ''run'' True) ''lint'' = Some False"
    by code_simp
  have h6: "commands (dispatch_state [''renpy'', ''--lint''] ''run'' True) ''run'' = Some Run"
    by code_simp
  have h7: "calls (dispatch_state [''renpy'', ''--lint''] ''run'' True) = []"
    by code_simp
  have h8: "fst (run (dispatch_state [''renpy'', ''--lint''] ''run'' True)) = Inr True"
    by code_simp
  show ?thesis
    using run_with_lint_dispatches_lint [OF h1 h2 h3 h4 h5, of marking_handler] h1 h6 h7 h8
    by (simp add: marking_handler_def)
qed

text \<open>
  Claim C6. When the effective command is registered with \<^verbatim>\<open>uses_display\<close> false,
  \<^verbatim>\<open>post_init\<close> calls its function in a state that differs from the starting one only in
  \<^verbatim>\<open>os.environ\<close>: each of \<^verbatim>\<open>SDL_AUDIODRIVER\<close> and \<^verbatim>\<open>SDL_VIDEODRIVER\<close> is \<^verbatim>\<open>dummy\<close> if it
  was unset and keeps its value if it was set, and every other variable is as before.
\<close>

theorem headless_driver_defaults:
  assumes "effective_command st = Inr c"
    and "lookup (commands st) c = Some f"
    and "lookup (display st) c = Some False"
  shows "post_init ext st =
           invoke ext f
             (st\<lparr>environ := (\<lambda>k. if (k = ''SDL_AUDIODRIVER'' \<or> k = ''SDL_VIDEODRIVER'') \<and>
                                       environ st k = None
                                    then Some ''dummy'' else environ st k)\<rparr>)"
  using post_init_registered [OF assms, of ext] by (simp add: setdefault_twice)

theorem headless_driver_defaults_witness:
  "effective_command
     ((dispatch_state [''renpy'', ''game'', ''lint''] ''lint'' False)
        \<lparr>environ := [''SDL_VIDEODRIVER'' \<mapsto> ''x11'', ''HOME'' \<mapsto> ''/home/u'']\<rparr>) =
     Inr (VStr ''lint'') \<and>
   map (environ (snd (post_init stop_handler
          ((dispatch_state [''renpy'', ''game'', ''lint''] ''lint'' False)
             \<lparr>environ := [''SDL_VIDEODRIVER'' \<mapsto> ''x11'', ''HOME'' \<mapsto> ''/home/u'']\<rparr>))))
       [''SDL_AUDIODRIVER'', ''SDL_VIDEODRIVER'', ''HOME'', ''PATH''] =
     [Some ''dummy'', Some ''x11'', Some ''/home/u'', None]"
proof -
  have h1: "effective_command
     ((dispatch_state [''renpy'', ''game'', ''lint''] ''lint'' False)
        \<lparr>environ := [''SDL_VIDEODRIVER'' \<mapsto> ''x11'', ''HOME'' \<mapsto> ''/home/u'']\<rparr>) =
     Inr (VStr ''lint'')"
    by code_simp
  have h2: "lookup (commands
     ((dispatch_state [''renpy'', ''game'', ''lint''] ''lint'' False)
        \<lparr>environ := [''SDL_VIDEODRIVER'' \<mapsto> ''x11'', ''HOME'' \<mapsto> ''/home/u'']\<rparr>))
     (VStr ''lint'') = Some (External ''renpy.lint.lint'')"
    by code_simp
  have h3: "lookup (display
     ((dispatch_state [''renpy'', ''game'', ''lint''] ''lint'' False)
        \<lparr>environ := [''SDL_VIDEODRIVER'' \<mapsto> ''x11'', ''HOME'' \<mapsto> ''/home/u'']\<rparr>))
     (VStr ''lint'') = Some False"
    by code_simp
  show ?thesis
    using headless_driver_defaults [OF h1 h2 h3, of stop_handler] h1
    by (simp add: invoke_def stop_handler_def)
qed

subsection \<open>Parsing\<close>

lemma parse_known_args_compile:
  assumes "parse_known_args st ap = Inr (args, rest)"
    and "args ''command'' = Some (VStr c)" and "c \<in> set compile_commands"
  shows "args ''compile'' = Some (VBool True)"
  using assms
  by (auto simp add: parse_known_args_def getattr_def Let_def
           split: sum.splits option.splits if_splits)

lemma parse_args_result:
  "parse_args st ap = Inr args \<Longrightarrow> parse_known_args st ap = Inr (args, [])"
  by (auto simp add: parse_args_def split: sum.splits if_splits)

text \<open>
  Claim C2. For every grammar, session and command line: if the lenient parse
  (\<^verbatim>\<open>parse_known_args\<close>) or the strict parse (\<^verbatim>\<open>parse_args\<close>) returns arguments whose
  command is \<^verbatim>\<open>compile\<close>, \<^verbatim>\<open>add_from\<close> or \<^verbatim>\<open>merge_strings\<close>, their compile flag is
  true; nothing is assumed about \<^verbatim>\<open>--compile\<close> or about the \<^verbatim>\<open>_reload\<close> marker.
\<close>

theorem compile_commands_force_compile:
  "(parse_known_args st ap = Inr (args, rest) \<longrightarrow>
      (\<exists>c\<in>set compile_commands. args ''command'' = Some (VStr c)) \<longrightarrow>
      args ''compile'' = Some (VBool True)) \<and>
   (parse_args st ap = Inr args' \<longrightarrow>
      (\<exists>c\<in>set compile_commands. args' ''command'' = Some (VStr c)) \<longrightarrow>
      args' ''compile'' = Some (VBool True))"
  using parse_known_args_compile parse_args_result by blast

theorem compile_commands_force_compile_witness:
  "(\<exists>ap args rest.
      ArgumentParser ((initial_state [''renpy'', ''game'', ''add_from''])
                        \<lparr>session := [''_reload'' \<mapsto> VBool True]\<rparr>) False None False = Inr ap \<and>
      parse_known_args ((initial_state [''renpy'', ''game'', ''add_from''])
                          \<lparr>session := [''_reload'' \<mapsto> VBool True]\<rparr>) ap = Inr (args, rest) \<and>
      args ''command'' = Some (VStr ''add_from'') \<and>
      args ''compile'' = Some (VBool True)) \<and>
   (\<exists>ap args.
      ArgumentParser ((dispatch_state [''renpy'', ''game'', ''compile''] ''compile'' False)
                        \<lparr>session := [''_reload'' \<mapsto> VBool True]\<rparr>) True None True = Inr ap \<and>
      parse_args ((dispatch_state [''renpy'', ''game'', ''compile''] ''compile'' False)
                    \<lparr>session := [''_reload'' \<mapsto> VBool True]\<rparr>) ap = Inr args \<and>
      args ''command'' = Some (VStr ''compile'') \<and>
      args ''compile'' = Some (VBool True))"
proof -
  have "case ArgumentParser ((initial_state [''renpy'', ''game'', ''add_from''])
                        \<lparr>session := [''_reload'' \<mapsto> VBool True]\<rparr>) False None False of
          Inl e \<Rightarrow> False
        | Inr ap \<Rightarrow>
            (case parse_known_args ((initial_state [''renpy'', ''game'', ''add_from''])
                          \<lparr>session := [''_reload'' \<mapsto> VBool True]\<rparr>) ap of
               Inl e \<Rightarrow> False
             | Inr (args, rest) \<Rightarrow> args ''command'' = Some (VStr ''add_from''))"
    by code_simp
  then obtain ap args rest where
    l: "ArgumentParser ((initial_state [''renpy'', ''game'', ''add_from''])
                        \<lparr>session := [''_reload'' \<mapsto> VBool True]\<rparr>) False None False = Inr ap"
       "parse_known_args ((initial_state [''renpy'', ''game'', ''add_from''])
                          \<lparr>session := [''_reload'' \<mapsto> VBool True]\<rparr>) ap = Inr (args, rest)"
       "args ''command'' = Some (VStr ''add_from'')"
    by (auto split: sum.splits)
  have lc: "\<exists>c\<in>set compile_commands. args ''command'' = Some (VStr c)"
    using l(3) by (simp add: compile_commands_def)
  have "case ArgumentParser ((dispatch_state [''renpy'', ''game'', ''compile''] ''compile'' False)
                        \<lparr>session := [''_reload'' \<mapsto> VBool True]\<rparr>) True None True of
          Inl e \<Rightarrow> False
        | Inr ap \<Rightarrow>
            (case parse_args ((dispatch_state [''renpy'', ''game'', ''compile''] ''compile'' False)
                    \<lparr>session := [''_reload'' \<mapsto> VBool True]\<rparr>) ap of
               Inl e \<Rightarrow> False
             | Inr args \<Rightarrow> args ''command'' = Some (VStr ''compile''))"
    by code_simp
  then obtain ap' args' where
    s: "ArgumentParser ((dispatch_state [''renpy'', ''game'', ''compile''] ''compile'' False)
                        \<lparr>session := [''_reload'' \<mapsto> VBool True]\<rparr>) True None True = Inr ap'"
       "parse_args ((dispatch_state [''renpy'', ''game'', ''compile''] ''compile'' False)
                    \<lparr>session := [''_reload'' \<mapsto> VBool True]\<rparr>) ap' = Inr args'"
       "args' ''command'' = Some (VStr ''compile'')"
    by (auto split: sum.splits)
  have sc: "\<exists>c\<in>set compile_commands. args' ''command'' = Some (VStr c)"
    using s(3) by (simp add: compile_commands_def)
  have "args ''compile'' = Some (VBool True)"
    using compile_commands_force_compile
            [of "(initial_state [''renpy'', ''game'', ''add_from''])
                   \<lparr>session := [''_reload'' \<mapsto> VBool True]\<rparr>" ap args rest]
          l(2) lc
    by blast
  moreover have "args' ''compile'' = Some (VBool True)"
    using compile_commands_force_compile
            [of "(dispatch_state [''renpy'', ''game'', ''compile''] ''compile'' False)
                   \<lparr>session := [''_reload'' \<mapsto> VBool True]\<rparr>" ap' _ _ args']
          s(2) sc
    by blast
  ultimately show ?thesis
    using l s by blast
qed

text \<open>
  Claim C7. Whenever \<^verbatim>\<open>bootstrap\<close> returns arguments whose command is \<^verbatim>\<open>"lint"\<close>,
  their lint flag is true; nothing is assumed about the tokens, so \<^verbatim>\<open>--lint\<close> may be
  absent.
\<close>

theorem bootstrap_lint_forced:
  assumes "bootstrap st = (Inr args, st')"
    and "args ''command'' = Some (VStr ''lint'')"
  shows "args ''lint'' = Some (VBool True)"
  using assms
  by (auto simp add: bootstrap_def getattr_def Let_def
           split: sum.splits option.splits if_splits)

theorem bootstrap_lint_forced_witness:
  "\<not> ''--lint'' \<in> set [''renpy'', ''game'', ''lint''] \<and>
   (\<exists>args st'. bootstrap (initial_state [''renpy'', ''game'', ''lint'']) = (Inr args, st') \<and>
      args ''command'' = Some (VStr ''lint'') \<and>
      args ''lint'' = Some (VBool True))"
proof -
  have "case fst (bootstrap (initial_state [''renpy'', ''game'', ''lint''])) of
          Inl e \<Rightarrow> False
        | Inr args \<Rightarrow> args ''command'' = Some (VStr ''lint'')"
    by code_simp
  then obtain args st' where
    b: "bootstrap (initial_state [''renpy'', ''game'', ''lint'']) = (Inr args, st')"
       "args ''command'' = Some (VStr ''lint'')"
    by (cases "bootstrap (initial_state [''renpy'', ''game'', ''lint''])")
       (auto split: sum.splits)
  have "args ''lint'' = Some (VBool True)"
    by (rule bootstrap_lint_forced [OF b])
  with b show ?thesis
    by auto
qed

subsection \<open>Bootstrap defaults\<close>











lemma bootstrap_empty_argv:
  "argv st = [] \<Longrightarrow> bootstrap st = (Inl (IndexError ''list index out of range''), st)"
  by (simp add: bootstrap_def clean_epic_arguments_def clean_macos_arguments_def
        ArgumentParser_def)



subsection \<open>What bootstrap returns\<close>

text \<open>
  Claim C3 (not met by the code). The docstring of \<^verbatim>\<open>bootstrap\<close> promises the parsed
  arguments and the list of unknown arguments, but the function returns the arguments
  only. Two command lines whose lenient parses leave different unrecognized tokens
  give the same return value, so the tokens cannot be read from it.
\<close>

theorem bootstrap_drops_unrecognized:
  "(\<exists>ap args. ArgumentParser (initial_state [''renpy'', ''--foo'']) False None False = Inr ap \<and>
      parse_known_args (initial_state [''renpy'', ''--foo'']) ap = Inr (args, [''--foo''])) \<and>
   (\<exists>ap args. ArgumentParser (initial_state [''renpy'', ''--bar'']) False None False = Inr ap \<and>
      parse_known_args (initial_state [''renpy'', ''--bar'']) ap = Inr (args, [''--bar''])) \<and>
   (\<exists>args. fst (bootstrap (initial_state [''renpy'', ''--foo''])) = Inr args) \<and>
   fst (bootstrap (initial_state [''renpy'', ''--foo''])) =
     fst (bootstrap (initial_state [''renpy'', ''--bar'']))"
proof -
  have "case ArgumentParser (initial_state [''renpy'', ''--foo'']) False None False of
          Inl e \<Rightarrow> False
        | Inr ap \<Rightarrow>
            (case parse_known_args (initial_state [''renpy'', ''--foo'']) ap of
               Inl e \<Rightarrow> False
             | Inr (args, rest) \<Rightarrow> rest = [''--foo''])"
    by code_simp
  then have foo: "\<exists>ap args. ArgumentParser (initial_state [''renpy'', ''--foo'']) False None False = Inr ap \<and>
      parse_known_args (initial_state [''renpy'', ''--foo'']) ap = Inr (args, [''--foo''])"
    by (auto split: sum.splits)
  have "case ArgumentParser (initial_state [''renpy'', ''--bar'']) False None False of
          Inl e \<Rightarrow> False
        | Inr ap \<Rightarrow>
            (case parse_known_args (initial_state [''renpy'', ''--bar'']) ap of
               Inl e \<Rightarrow> False
             | Inr (args, rest) \<Rightarrow> rest = [''--bar''])"
    by code_simp
  then have bar: "\<exists>ap args. ArgumentParser (initial_state [''renpy'', ''--bar'']) False None False = Inr ap \<and>
      parse_known_args (initial_state [''renpy'', ''--bar'']) ap = Inr (args, [''--bar''])"
    by (auto split: sum.splits)
  have "case fst (bootstrap (initial_state [''renpy'', ''--foo''])) of
          Inl e \<Rightarrow> False | Inr args \<Rightarrow> True"
    by code_simp
  then have ret: "\<exists>args. fst (bootstrap (initial_state [''renpy'', ''--foo''])) = Inr args"
    by (auto split: sum.splits)
  have same: "fst (bootstrap (initial_state [''renpy'', ''--foo''])) =
              fst (bootstrap (initial_state [''renpy'', ''--bar'']))"
    by (simp add: bootstrap_def clean_epic_arguments_def clean_macos_arguments_def
          initial_state_def startswith_def lower_def lower_char_def
          ArgumentParser_def parse_known_args_def argparse_parse_known_args_def
          parse_optional_def find_option_def split_eq_def get_option_tuples_def
          positional_def store_option_def store_true_def negative_number_like_def is_digit_def
          take_action_def getattr_def get_flag_def is_required_def compile_commands_def)
  from foo bar ret same show ?thesis
    by blast
qed

subsection \<open>Warp\<close>

lemma run_warp_step:
  "(warp_assignments (snd (run st)) = warp_assignments st \<and>
    (get_flag (session st) ''_warped'' \<longrightarrow> get_flag (session (snd (run st))) ''_warped'')) \<or>
   (\<not> get_flag (session st) ''_warped'' \<and>
    get_flag (session (snd (run st))) ''_warped'' \<and>
    warp_assignments (snd (run st)) = Suc (warp_assignments st))"
  by (simp add: run_def Let_def get_flag_def split: sum.splits)

lemma run_sequence_warped:
  "get_flag (session st) ''_warped'' \<Longrightarrow>
   warp_assignments (run_sequence avs st) = warp_assignments st"
proof (induction avs arbitrary: st)
  case Nil
  then show ?case by simp
next
  case (Cons av avs)
  let ?s = "st\<lparr>argv := av\<rparr>"
  have f: "get_flag (session ?s) ''_warped''" using Cons.prems by simp
  from run_warp_step [of ?s] f
  have "warp_assignments (snd (run ?s)) = warp_assignments st"
    and "get_flag (session (snd (run ?s))) ''_warped''"
    by auto
  with Cons.IH [of "snd (run ?s)"] show ?case by simp
qed

lemma run_sequence_once:
  "warp_assignments (run_sequence avs st) \<le> Suc (warp_assignments st)"
proof (induction avs arbitrary: st)
  case Nil
  then show ?case by simp
next
  case (Cons av avs)
  let ?s = "st\<lparr>argv := av\<rparr>"
  from run_warp_step [of ?s]
  consider (same) "warp_assignments (snd (run ?s)) = warp_assignments st"
    | (applied) "get_flag (session (snd (run ?s))) ''_warped''"
      "warp_assignments (snd (run ?s)) = Suc (warp_assignments st)"
    by auto
  then show ?case
  proof cases
    case same
    with Cons.IH [of "snd (run ?s)"] show ?thesis by simp
  next
    case applied
    with run_sequence_warped [of "snd (run ?s)" avs] show ?thesis by simp
  qed
qed

text \<open>
  Claim C10. A call of \<^verbatim>\<open>run\<close> that assigns \<^verbatim>\<open>renpy.warp.warp_spec\<close> does so once,
  found the \<^verbatim>\<open>_warped\<close> marker of the session not set and leaves it set. Hence over
  any sequence of calls of \<^verbatim>\<open>run\<close> in one session, whatever the command lines, the
  assignment is executed at most once, and not at all when the marker was already set.
\<close>

theorem warp_applied_at_most_once:
  "(warp_assignments (snd (run st)) \<noteq> warp_assignments st \<longrightarrow>
      \<not> get_flag (session st) ''_warped'' \<and>
      get_flag (session (snd (run st))) ''_warped'' \<and>
      warp_assignments (snd (run st)) = Suc (warp_assignments st)) \<and>
   warp_assignments (run_sequence avs st) \<le> Suc (warp_assignments st) \<and>
   (get_flag (session st) ''_warped'' \<longrightarrow>
      warp_assignments (run_sequence avs st) = warp_assignments st)"
  using run_warp_step [of st] run_sequence_once [of avs st] run_sequence_warped [of st avs]
  by auto

theorem warp_applied_at_most_once_witness:
  "warp_assignments
     (run_sequence [[''renpy'', ''game'', ''run'', ''--warp'', ''script.rpy:10''],
                    [''renpy'', ''game'', ''run'', ''--warp'', ''script.rpy:20'']]
        (dispatch_state [] ''run'' False)) = 1 \<and>
   warp_spec
     (run_sequence [[''renpy'', ''game'', ''run'', ''--warp'', ''script.rpy:10''],
                    [''renpy'', ''game'', ''run'', ''--warp'', ''script.rpy:20'']]
        (dispatch_state [] ''run'' False)) = VStr ''script.rpy:10'' \<and>
   get_flag (session (snd (run (dispatch_state [''renpy'', ''game'', ''run'', ''--warp'', ''script.rpy:10'']
                                  ''run'' False)))) ''_warped'' \<and>
   warp_assignments
     (run_sequence [[''renpy'', ''game'', ''run'', ''--warp'', ''script.rpy:20'']]
        (snd (run (dispatch_state [''renpy'', ''game'', ''run'', ''--warp'', ''script.rpy:10'']
                     ''run'' False)))) = 1"
proof -
  let ?s = "dispatch_state [''renpy'', ''game'', ''run'', ''--warp'', ''script.rpy:10''] ''run'' False"
  have a: "warp_assignments (snd (run ?s)) \<noteq> warp_assignments ?s"
    by code_simp
  have b: "warp_assignments (snd (run ?s)) = 1"
    by code_simp
  have c: "warp_assignments
     (run_sequence [[''renpy'', ''game'', ''run'', ''--warp'', ''script.rpy:10''],
                    [''renpy'', ''game'', ''run'', ''--warp'', ''script.rpy:20'']]
        (dispatch_state [] ''run'' False)) = 1"
    by code_simp
  have d: "warp_spec
     (run_sequence [[''renpy'', ''game'', ''run'', ''--warp'', ''script.rpy:10''],
                    [''renpy'', ''game'', ''run'', ''--warp'', ''script.rpy:20'']]
        (dispatch_state [] ''run'' False)) = VStr ''script.rpy:10''"
    by code_simp
  from warp_applied_at_most_once [of ?s "[]", THEN conjunct1, THEN mp, OF a]
  have w: "get_flag (session (snd (run ?s))) ''_warped''"
    by simp
  from warp_applied_at_most_once
         [of "snd (run ?s)" "[[''renpy'', ''game'', ''run'', ''--warp'', ''script.rpy:20'']]",
          THEN conjunct2, THEN conjunct2, THEN mp, OF w] b
  have "warp_assignments
     (run_sequence [[''renpy'', ''game'', ''run'', ''--warp'', ''script.rpy:20'']]
        (snd (run ?s))) = 1"
    by simp
  with c d w show ?thesis
    by simp
qed

end
